theory Spec2Isabelle
  imports Complex_Main "HOL-Library.Log_Nat"
begin

section \<open>CivicSense: issue intake, lifecycle and analytics\<close>

text \<open>
  The server keeps one collection of issue documents (server/models/Issue.js) and
  serves it through the handlers of server/routes/api.js. The collection is modelled
  as the list of its documents in insertion order; every handler takes the collection
  and returns its response, the collection afterwards and the notifications it sent.
  \<open>new Date()\<close> and \<open>Math.random()\<close> are inputs of the handlers that use them.
\<close>

subsection \<open>JavaScript values\<close>

text \<open>
  A number that is not a double with a finite value is \<open>NaN\<close> or an infinity; a finite
  double is the rational it denotes.
\<close>

datatype jsnumber = NaN | PosInfinity | NegInfinity | Finite rat

text \<open>
  Rounding to the nearest double, ties to even: \<open>binade x\<close> is the exponent \<open>e\<close> with
  \<open>2\<^sup>e \<le> x < 2\<^sup>e\<^sup>+\<^sup>1\<close> (for positive \<open>x\<close>), \<open>ulp x\<close> the spacing of the doubles around
  \<open>x\<close> (53 significant bits, the subnormal spacing below \<open>2\<^sup>-\<^sup>1\<^sup>0\<^sup>2\<^sup>2\<close>). Overflow to infinity
  is left out: the arithmetic of the handlers stays far below it.
\<close>

definition rne :: "rat \<Rightarrow> int" where
  "rne x =
     (let n = \<lfloor>x\<rfloor>; d = x - of_int n
      in if d < 1 / 2 then n else if 1 / 2 < d then n + 1 else if even n then n else n + 1)"

definition binade :: "rat \<Rightarrow> int" where
  "binade x =
     (if 1 \<le> x then int (floorlog 2 (nat \<lfloor>x\<rfloor>)) - 1
      else - int (floorlog 2 (nat (\<lceil>1 / x\<rceil> - 1))))"

definition ulp :: "rat \<Rightarrow> rat" where
  "ulp x = 2 powi (max (binade \<bar>x\<bar>) (- 1022) - 52)"

definition round_double :: "rat \<Rightarrow> rat" where
  "round_double x = (if x = 0 then 0 else of_int (rne (x / ulp x)) * ulp x)"



text \<open>
  The values a request body delivers for a field: the server installs \<open>express.json()\<close>
  and \<open>express.urlencoded\<close> beside the multipart parser, so a field is a string, a number,
  a boolean or \<open>null\<close> (arrays and objects are left out). A number is carried as the text
  that \<open>ToString\<close> gives it, which is all the handlers use of it: its truth value and its
  string form. A \<open>JNum\<close> whose text is not made of the characters of such texts stands
  for \<open>NaN\<close>.
\<close>

datatype jsval = JNull | JBool bool | JNum string | JStr string

definition number_text :: "string \<Rightarrow> bool" where
  "number_text n \<longleftrightarrow> n \<noteq> [] \<and> set n \<subseteq> set ''0123456789.e+-InfinityNaN''"

fun ToString :: "jsval \<Rightarrow> string" where
  "ToString JNull = ''null''"
| "ToString (JBool b) = (if b then ''true'' else ''false'')"
| "ToString (JNum n) = (if number_text n then n else ''NaN'')"
| "ToString (JStr s) = s"

text \<open>
  \<open>req.body\<close> is an object of fields; a field that is not there reads \<open>undefined\<close>
  (\<open>None\<close>). \<open>truthy\<close> is the truth value JavaScript gives a field in \<open>!field\<close>: false
  for \<open>undefined\<close>, \<open>null\<close>, \<open>false\<close>, the numbers 0 and \<open>NaN\<close> and the empty string.
\<close>

type_synonym body = "string \<rightharpoonup> jsval"

fun truthy :: "jsval option \<Rightarrow> bool" where
  "truthy None = False"
| "truthy (Some JNull) = False"
| "truthy (Some (JBool b)) = b"
| "truthy (Some (JNum n)) = (ToString (JNum n) \<noteq> ''0'' \<and> ToString (JNum n) \<noteq> ''NaN'')"
| "truthy (Some (JStr s)) = (s \<noteq> [])"

subsection \<open>Documents (IssueSchema)\<close>

text \<open>A \<open>Date\<close> is its \<open>getTime()\<close> value: milliseconds since the epoch.\<close>

type_synonym timestamp = int

text \<open>\<open>location\<close>: a GeoJSON point, \<open>coordinates\<close> being \<open>[longitude, latitude]\<close>.\<close>

record location =
  geo_type :: string
  coordinates :: "jsnumber list"
  landmark :: "string option"

text \<open>
  The paths of IssueSchema, and \<open>createdAt\<close> and \<open>updatedAt\<close>, which the schema
  option \<open>timestamps: true\<close> adds. An optional path with no value is \<open>None\<close>.
\<close>

record issue =
  issueId :: string
  issueType :: string
  description :: string
  location :: location
  imageUrl :: "string option"
  status :: string
  citizenContact :: string
  assignedDepartment :: string
  assignedTo :: "string option"
  resolvedAt :: "timestamp option"
  createdAt :: timestamp
  updatedAt :: timestamp

definition issueType_enum :: "string list" where
  "issueType_enum =
     [''Pothole'', ''Garbage Overflow'', ''Streetlight Outage'', ''Water Leakage'', ''Other'']"

definition status_enum :: "string list" where
  "status_enum = [''Pending'', ''Acknowledged'', ''In Progress'', ''Resolved'']"

text \<open>
  The validators the schema declares, as a document's \<open>save()\<close> runs them: a required
  string path must hold a non-empty string, an enum path one of the listed values.
\<close>

definition validate :: "issue \<Rightarrow> bool" where
  "validate i \<longleftrightarrow>
     issueId i \<noteq> [] \<and>
     issueType i \<in> set issueType_enum \<and>
     description i \<noteq> [] \<and>
     geo_type (location i) = ''Point'' \<and>
     status i \<in> set status_enum \<and>
     citizenContact i \<noteq> [] \<and>
     assignedDepartment i \<noteq> []"

subsection \<open>The collection\<close>

datatype store_error = ValidationFailed | DuplicateKey | CannotExtractGeoKeys

text \<open>\<open>Issue.findOne({ issueId })\<close>: the first document with that id, if any.\<close>

definition findOne :: "string \<Rightarrow> issue list \<Rightarrow> issue option" where
  "findOne iid st = find (\<lambda>i. issueId i = iid) st"

text \<open>Rewrite the first document with the given id, leaving every other one alone.\<close>

fun updateFirst :: "string \<Rightarrow> (issue \<Rightarrow> issue) \<Rightarrow> issue list \<Rightarrow> issue list" where
  "updateFirst iid f [] = []"
| "updateFirst iid f (i # rest) =
     (if issueId i = iid then f i # rest else i # updateFirst iid f rest)"

text \<open>
  The schema declares a \<open>2dsphere\<close> index on \<open>location\<close>. The store can index a point
  only if its longitude lies in \<open>[-180, 180]\<close> and its latitude in \<open>[-90, 90]\<close>, and
  refuses the insert of a document it cannot index.
\<close>

definition geo_indexable :: "location \<Rightarrow> bool" where
  "geo_indexable l =
     (case coordinates l of
        [Finite lon, Finite lat] \<Rightarrow> - 180 \<le> lon \<and> lon \<le> 180 \<and> - 90 \<le> lat \<and> lat \<le> 90
      | _ \<Rightarrow> False)"

text \<open>
  \<open>save()\<close> of a new document: the validators run first; then the insert, which the
  unique index on \<open>issueId\<close> (\<open>unique: true\<close>) refuses when the id is already there,
  and the \<open>2dsphere\<close> index when the point is out of bounds. (Which of the two indexes
  speaks first makes no difference to the handler.)
\<close>

definition save_new :: "issue \<Rightarrow> issue list \<Rightarrow> store_error + issue list" where
  "save_new i st =
     (if \<not> validate i then Inl ValidationFailed
      else if issueId i \<in> set (map issueId st) then Inl DuplicateKey
      else if \<not> geo_indexable (location i) then Inl CannotExtractGeoKeys
      else Inr (st @ [i]))"

text \<open>
  The \<open>$set\<close> document of /update_status: \<open>status\<close> always, \<open>resolvedAt\<close> only when the
  handler put it there (\<open>None\<close>: the key is not in the update).
\<close>

record updateData =
  set_status :: string
  set_resolvedAt :: "timestamp option"

definition apply_set :: "updateData \<Rightarrow> timestamp \<Rightarrow> issue \<Rightarrow> issue" where
  "apply_set u now i =
     (let i1 = i\<lparr>status := set_status u\<rparr>;
          i2 = (case set_resolvedAt u of None \<Rightarrow> i1 | Some t \<Rightarrow> i1\<lparr>resolvedAt := Some t\<rparr>)
      in i2\<lparr>updatedAt := now\<rparr>)"

text \<open>
  \<open>Issue.findOneAndUpdate({ issueId }, { $set: updateData }, { new: true })\<close>: the
  update is applied to the first matching document and the document as updated is
  returned; \<open>None\<close> when nothing matches (there is no upsert). The call passes no
  \<open>runValidators\<close> option, so the schema's validators are not consulted; the
  \<open>timestamps\<close> option of the schema refreshes \<open>updatedAt\<close>.
\<close>

definition findOneAndUpdate ::
  "string \<Rightarrow> updateData \<Rightarrow> timestamp \<Rightarrow> issue list \<Rightarrow> (issue \<times> issue list) option" where
  "findOneAndUpdate iid u now st =
     (case findOne iid st of
        None \<Rightarrow> None
      | Some i \<Rightarrow> Some (apply_set u now i, updateFirst iid (apply_set u now) st))"

subsection \<open>Responses\<close>

text \<open>The responses of the handlers, by HTTP status, with the message they carry.\<close>

datatype response =
    BadRequest string
  | NotFound string
  | ServerError string
  | Created string string
  | Ok string issue
  | Document issue

type_synonym notification = "string \<times> string"

subsection \<open>Identifier generator and department routing\<close>

text \<open>The decimal digit \<open>d\<close> (below ten wherever it is used) as a character.\<close>

definition digit_char :: "nat \<Rightarrow> char" where
  "digit_char d = ''0123456789'' ! d"

fun toString_nat :: "nat \<Rightarrow> string" where
  "toString_nat n =
     (if n < 10 then [digit_char n] else toString_nat (n div 10) @ [digit_char (n mod 10)])"

declare toString_nat.simps [simp del]

text \<open>\<open>Number.prototype.toString\<close> on an integer value: its decimal digits.\<close>

definition toString :: "int \<Rightarrow> string" where
  "toString k = (if k < 0 then CHR ''-'' # toString_nat (nat (- k)) else toString_nat (nat k))"

text \<open>
  \<open>generateIssueId\<close>, with the draw \<open>r\<close> of \<open>Math.random()\<close> as its argument: a double
  with \<open>0 \<le> r < 1\<close>, by the contract of \<open>Math.random\<close>. The product and the sum are
  double operations and round.
\<close>

definition generateIssueId :: "rat \<Rightarrow> string" where
  "generateIssueId r = toString \<lfloor>round_double (100000 + round_double (r * 900000))\<rfloor>"

text \<open>The department chosen for an issue type (api.js, lines 68 to 72).\<close>

definition route :: "string \<Rightarrow> string" where
  "route issueType' =
     (if issueType' = ''Garbage Overflow'' then ''Sanitation''
      else if issueType' = ''Pothole'' then ''Public Works''
      else if issueType' = ''Streetlight Outage'' then ''Electrical''
      else if issueType' = ''Water Leakage'' then ''Water Department''
      else ''General Services'')"

subsection \<open>POST /api/report\<close>

definition upload_url :: "string \<Rightarrow> string" where
  "upload_url filename = ''/uploads/'' @ filename"

definition confirmationMessage :: "string \<Rightarrow> string \<Rightarrow> string" where
  "confirmationMessage iid ty =
     ''Thank you! Your issue report (#'' @ iid @ '' - '' @ ty @
     '') has been received. We will keep you updated on its progress.''"

text \<open>
  The body of the handler's \<open>try\<close> block, which runs once the upload step has passed:
  the operation the specification calls create. \<open>file\<close> is the stored file's name
  (\<open>req.file\<close>), \<open>r\<close> the random draw, \<open>now\<close> the clock. \<open>parseFloat\<close> is the JavaScript
  builtin on the string form of its argument. The document is built with the casts of
  the schema: a string path takes the string form of the value; a \<open>NaN\<close> coordinate
  fails the cast to a number, which \<open>save()\<close> reports. The comparisons of the routing
  are strict (\<open>===\<close>), so only a string can match. An exception of \<open>save()\<close> is caught
  and answered with 500.
\<close>

definition create ::
  "(string \<Rightarrow> jsnumber) \<Rightarrow> body \<Rightarrow> string option \<Rightarrow> rat \<Rightarrow> timestamp \<Rightarrow>
   issue list \<Rightarrow> response \<times> issue list \<times> notification list" where
  "create parseFloat req_body file r now st =
     (if \<not> truthy (req_body ''issueType'') \<or> \<not> truthy (req_body ''latitude'') \<or>
         \<not> truthy (req_body ''longitude'') \<or> \<not> truthy (req_body ''description'') \<or>
         \<not> truthy (req_body ''citizenContact'')
      then (BadRequest ''Missing required fields. Please fill out all parts of the form.'',
            st, [])
      else
        let ty = the (req_body ''issueType'');
            contact = the (req_body ''citizenContact'');
            lon = parseFloat (ToString (the (req_body ''longitude'')));
            lat = parseFloat (ToString (the (req_body ''latitude'')));
            newIssue =
              \<lparr> issueId = generateIssueId r,
                issueType = ToString ty,
                description = ToString (the (req_body ''description'')),
                location = \<lparr> geo_type = ''Point'', coordinates = [lon, lat],
                             landmark = (case req_body ''landmark'' of
                                           None \<Rightarrow> None
                                         | Some JNull \<Rightarrow> None
                                         | Some v \<Rightarrow> Some (ToString v)) \<rparr>,
                imageUrl = map_option upload_url file,
                status = ''Pending'',
                citizenContact = ToString contact,
                assignedDepartment =
                  (case ty of JStr s \<Rightarrow> route s | _ \<Rightarrow> ''General Services''),
                assignedTo = None,
                resolvedAt = None,
                createdAt = now,
                updatedAt = now \<rparr>
        in if lon = NaN \<or> lat = NaN
           then (ServerError ''An unexpected server error occurred while submitting your report.'',
                 st, [])
           else (case save_new newIssue st of
                   Inl e \<Rightarrow>
                     (ServerError ''An unexpected server error occurred while submitting your report.'',
                      st, [])
                 | Inr st' \<Rightarrow>
                     (Created ''Issue reported successfully!'' (issueId newIssue), st',
                      [(ToString contact, confirmationMessage (issueId newIssue) (ToString ty))])))"

text \<open>
  The handler: \<open>err\<close> is the error the upload middleware hands to the callback, and is
  answered before anything else is looked at.
\<close>

definition report ::
  "(string \<Rightarrow> jsnumber) \<Rightarrow> string option \<Rightarrow> body \<Rightarrow> string option \<Rightarrow> rat \<Rightarrow> timestamp \<Rightarrow>
   issue list \<Rightarrow> response \<times> issue list \<times> notification list" where
  "report parseFloat err req_body file r now st =
     (case err of
        Some e \<Rightarrow> (BadRequest ''File upload error.'', st, [])
      | None \<Rightarrow> create parseFloat req_body file r now st)"

subsection \<open>POST /api/update_status\<close>

definition updateMessage :: "string \<Rightarrow> string \<Rightarrow> string" where
  "updateMessage iid s =
     ''Update for issue #'' @ iid @ '': The status has been changed to '' @
     [CHR 0x22] @ s @ [CHR 0x22] @ ''.''"

text \<open>
  The handler's \<open>new Date()\<close> and the store's \<open>updatedAt\<close> are read within the same
  request; both are \<open>now\<close>. The filter and the update are cast by the schema: both
  paths are strings.
\<close>

definition update_status ::
  "body \<Rightarrow> timestamp \<Rightarrow> issue list \<Rightarrow> response \<times> issue list \<times> notification list" where
  "update_status req_body now st =
     (if \<not> truthy (req_body ''issueId'') \<or> \<not> truthy (req_body ''status'')
      then (BadRequest ''Issue ID and a new status are required.'', st, [])
      else
        let iid = the (req_body ''issueId'');
            status' = the (req_body ''status'');
            updateData =
              (if status' = JStr ''Resolved''
               then \<lparr> set_status = ToString status', set_resolvedAt = Some now \<rparr>
               else \<lparr> set_status = ToString status', set_resolvedAt = None \<rparr>)
        in (case findOneAndUpdate (ToString iid) updateData now st of
              None \<Rightarrow> (NotFound ''Issue not found with that ID.'', st, [])
            | Some (updatedIssue, st') \<Rightarrow>
                (Ok ''Status updated successfully!'' updatedIssue, st',
                 [(citizenContact updatedIssue,
                   updateMessage (ToString iid) (ToString status'))])))"

subsection \<open>POST /api/assign_issue\<close>

text \<open>
  \<open>castObjectId\<close> is the cast of the \<open>assignedTo\<close> path (\<open>Schema.Types.ObjectId\<close>):
  \<open>None\<close> when the value is no object id, which makes \<open>save()\<close> throw. \<open>save()\<close> of a
  loaded document runs the validators, writes nothing when no path was modified, and
  otherwise writes the document back with \<open>updatedAt\<close> refreshed. No notification is
  sent. The \<open>populate\<close> of the answer only expands the reference for display.
\<close>

definition assign_issue ::
  "(jsval \<Rightarrow> string option) \<Rightarrow> body \<Rightarrow> timestamp \<Rightarrow> issue list \<Rightarrow>
   response \<times> issue list \<times> notification list" where
  "assign_issue castObjectId req_body now st =
     (if \<not> truthy (req_body ''issueId'') \<or> \<not> truthy (req_body ''userId'')
      then (BadRequest ''Issue ID and User ID are required for assignment.'', st, [])
      else
        let iid = ToString (the (req_body ''issueId'')) in
        (case findOne iid st of
           None \<Rightarrow> (NotFound ''Issue not found with that ID.'', st, [])
         | Some issue' \<Rightarrow>
             (case castObjectId (the (req_body ''userId'')) of
                None \<Rightarrow> (ServerError ''Failed to assign issue.'', st, [])
              | Some uid \<Rightarrow>
                  if \<not> validate issue' then (ServerError ''Failed to assign issue.'', st, [])
                  else if assignedTo issue' = Some uid
                  then (Ok ''Issue assigned successfully!'' issue', st, [])
                  else
                    let saved = issue'\<lparr>assignedTo := Some uid, updatedAt := now\<rparr>
                    in (Ok ''Issue assigned successfully!'' saved,
                        updateFirst iid (\<lambda>_. saved) st, []))))"

subsection \<open>GET /api/track_status/:issue_id\<close>


subsection \<open>GET /api/analytics: average resolution time\<close>

text \<open>
  The handler reads \<open>issue.reportedAt\<close>. IssueSchema declares no such path (the
  creation time the store keeps is \<open>createdAt\<close>), and nothing in the handlers ever
  writes one, so the read yields \<open>undefined\<close> on every document.
\<close>

definition reportedAt :: "issue \<Rightarrow> timestamp option" where
  "reportedAt i = None"

text \<open>\<open>Issue.find({ status: 'Resolved', resolvedAt: { $ne: null } })\<close>\<close>

definition resolvedIssues :: "issue list \<Rightarrow> issue list" where
  "resolvedIssues st = filter (\<lambda>i. status i = ''Resolved'' \<and> resolvedAt i \<noteq> None) st"

text \<open>
  The \<open>forEach\<close> loop over the resolved issues, on the pair
  \<open>(totalResolutionTimeMs, validResolvedCount)\<close>; \<open>instanceof Date\<close> holds of a value
  that is there. The difference and the sum are double operations.
\<close>

fun sumResolution :: "issue list \<Rightarrow> rat \<times> nat \<Rightarrow> rat \<times> nat" where
  "sumResolution [] acc = acc"
| "sumResolution (i # rest) (totalResolutionTimeMs, validResolvedCount) =
     (case (resolvedAt i, reportedAt i) of
        (Some res, Some rep) \<Rightarrow>
          sumResolution rest
            (round_double (totalResolutionTimeMs + round_double (rat_of_int (res - rep))),
             validResolvedCount + 1)
      | _ \<Rightarrow> sumResolution rest (totalResolutionTimeMs, validResolvedCount))"

text \<open>
  \<open>x.toFixed(1)\<close> of a double \<open>x\<close>: the integer \<open>n\<close> with \<open>n / 10\<close> nearest to \<open>x\<close> (the larger
  of two), printed with one digit after the point. The exponent form of values from
  \<open>10\<^sup>2\<^sup>1\<close> on is not needed for durations.
\<close>

definition toFixed1 :: "rat \<Rightarrow> string" where
  "toFixed1 x =
     (let n = nat \<lfloor>\<bar>x\<bar> * 10 + 1 / 2\<rfloor>;
          s = toString_nat (n div 10) @ ''.'' @ toString_nat (n mod 10)
      in if x < 0 then CHR ''-'' # s else s)"

definition avgResolutionTimeHours :: "issue list \<Rightarrow> string" where
  "avgResolutionTimeHours st =
     (let resolved = resolvedIssues st;
          (totalResolutionTimeMs, validResolvedCount) =
             (if length resolved > 0 then sumResolution resolved (0, 0) else (0, 0));
          avgResolutionTimeMs =
             (if validResolvedCount > 0
              then round_double (totalResolutionTimeMs / rat_of_nat validResolvedCount) else 0)
      in toFixed1 (round_double (avgResolutionTimeMs / (1000 * 60 * 60))))"

text \<open>
  The average as the specification words it, for comparison with the handler: the mean
  of \<open>resolvedAt - createdAt\<close> in hours over the issues with status Resolved whose
  \<open>resolvedAt\<close> is present (\<open>createdAt\<close> always is), and 0 when there is none.
\<close>

definition spec_qualifying :: "issue list \<Rightarrow> issue list" where
  "spec_qualifying st = filter (\<lambda>i. status i = ''Resolved'' \<and> resolvedAt i \<noteq> None) st"

definition spec_averageHours :: "issue list \<Rightarrow> rat" where
  "spec_averageHours st =
     (let q = spec_qualifying st
      in if q = [] then 0
         else rat_of_int (sum_list (map (\<lambda>i. the (resolvedAt i) - createdAt i) q))
              / rat_of_nat (length q) / 3600000)"

subsection \<open>Runs of the mutating operations\<close>

datatype request =
    PostReport "string option" body "string option" rat timestamp
  | PostUpdateStatus body timestamp
  | PostAssignIssue body timestamp

fun handle ::
  "(string \<Rightarrow> jsnumber) \<Rightarrow> (jsval \<Rightarrow> string option) \<Rightarrow> request \<Rightarrow> issue list \<Rightarrow>
   response \<times> issue list \<times> notification list" where
  "handle pf co (PostReport err b file r now) st = report pf err b file r now st"
| "handle pf co (PostUpdateStatus b now) st = update_status b now st"
| "handle pf co (PostAssignIssue b now) st = assign_issue co b now st"

fun run ::
  "(string \<Rightarrow> jsnumber) \<Rightarrow> (jsval \<Rightarrow> string option) \<Rightarrow> request list \<Rightarrow> issue list \<Rightarrow>
   issue list" where
  "run pf co [] st = st"
| "run pf co (q # qs) st = run pf co qs (fst (snd (handle pf co q st)))"

text \<open>The clock reading a request is handled at.\<close>

fun clock_of :: "request \<Rightarrow> timestamp" where
  "clock_of (PostReport err b file r now) = now"
| "clock_of (PostUpdateStatus b now) = now"
| "clock_of (PostAssignIssue b now) = now"

subsection \<open>Vocabulary of the properties\<close>

text \<open>
  \<open>parseFloat\<close> on the texts the examples use (every other text counts as unparsable
  here), and the cast to an object id of a string of 24 hexadecimal digits.
\<close>

definition example_parseFloat :: "string \<Rightarrow> jsnumber" where
  "example_parseFloat s =
     (if s = ''77.5'' then Finite (155 / 2)
      else if s = ''12.5'' then Finite (25 / 2)
      else if s = ''200'' then Finite 200
      else if s = ''95'' then Finite 95
      else if s = ''0'' then Finite 0
      else NaN)"

definition example_castObjectId :: "jsval \<Rightarrow> string option" where
  "example_castObjectId v =
     (case v of
        JStr s \<Rightarrow> if length s = 24 \<and> set s \<subseteq> set ''0123456789abcdef'' then Some s else None
      | _ \<Rightarrow> None)"

text \<open>
  A complete submission, and the document \<open>/report\<close> makes of it at time 0 with the
  draw 0.
\<close>

definition pothole_body :: body where
  "pothole_body =
     [''issueType'' \<mapsto> JStr ''Pothole'', ''latitude'' \<mapsto> JStr ''12.5'',
      ''longitude'' \<mapsto> JStr ''77.5'', ''description'' \<mapsto> JStr ''Deep hole'',
      ''citizenContact'' \<mapsto> JStr ''+911234567890'']"

definition pothole_issue :: issue where
  "pothole_issue =
     \<lparr> issueId = ''100000'', issueType = ''Pothole'', description = ''Deep hole'',
       location = \<lparr> geo_type = ''Point'', coordinates = [Finite (155 / 2), Finite (25 / 2)],
                    landmark = None \<rparr>,
       imageUrl = None, status = ''Pending'', citizenContact = ''+911234567890'',
       assignedDepartment = ''Public Works'', assignedTo = None, resolvedAt = None,
       createdAt = 0, updatedAt = 0 \<rparr>"

text \<open>
  What \<open>/update_status\<close> does to the document it finds, in one step, given the string
  form of the new status.
\<close>

definition status_patch :: "string \<Rightarrow> timestamp \<Rightarrow> issue \<Rightarrow> issue" where
  "status_patch s now =
     apply_set \<lparr> set_status = s,
                 set_resolvedAt = (if s = ''Resolved'' then Some now else None) \<rparr> now"

text \<open>
  Every issue with status Resolved has a \<open>resolvedAt\<close>.
\<close>

definition resolved_has_timestamp :: "issue list \<Rightarrow> bool" where
  "resolved_has_timestamp st \<longleftrightarrow> (\<forall>i\<in>set st. status i = ''Resolved'' \<longrightarrow> resolvedAt i \<noteq> None)"

text \<open>
  No issue was created after the clock reading \<open>T\<close>, or resolved before it was created.
\<close>

definition times_ordered :: "timestamp \<Rightarrow> issue list \<Rightarrow> bool" where
  "times_ordered T st \<longleftrightarrow>
     (\<forall>i\<in>set st. createdAt i \<le> T \<and> (\<forall>t. resolvedAt i = Some t \<longrightarrow> createdAt i \<le> t))"

text \<open>
  A field is absent when the submission does not have it. A field is falsy when
  \<open>!field\<close> holds of it: it is absent, \<open>null\<close>, \<open>false\<close>, the number 0 or \<open>NaN\<close>, or the
  empty string.
\<close>

definition absent :: "jsval option \<Rightarrow> bool" where
  "absent v \<longleftrightarrow> v = None"

fun falsy :: "jsval option \<Rightarrow> bool" where
  "falsy None = True"
| "falsy (Some JNull) = True"
| "falsy (Some (JBool b)) = (\<not> b)"
| "falsy (Some (JNum n)) = (ToString (JNum n) = ''0'' \<or> ToString (JNum n) = ''NaN'')"
| "falsy (Some (JStr s)) = (s = [])"

text \<open>
  Two documents that differ at most in \<open>status\<close>, \<open>resolvedAt\<close> and \<open>updatedAt\<close>; and at most
  in \<open>assignedTo\<close> and \<open>updatedAt\<close>.
\<close>

definition status_frame :: "issue \<Rightarrow> issue \<Rightarrow> bool" where
  "status_frame i i' \<longleftrightarrow>
     i' = i\<lparr>status := status i', resolvedAt := resolvedAt i', updatedAt := updatedAt i'\<rparr>"

definition assign_frame :: "issue \<Rightarrow> issue \<Rightarrow> bool" where
  "assign_frame i i' \<longleftrightarrow> i' = i\<lparr>assignedTo := assignedTo i', updatedAt := updatedAt i'\<rparr>"

text \<open>
  The invariant and the frame as the specification words them: \<open>resolvedAt\<close> is there
  exactly when the status is Resolved; a status update changes \<open>status\<close> and
  \<open>resolvedAt\<close> and nothing else.
\<close>

definition spec_resolvedAt_iff :: "issue list \<Rightarrow> bool" where
  "spec_resolvedAt_iff st \<longleftrightarrow> (\<forall>i\<in>set st. (resolvedAt i \<noteq> None) = (status i = ''Resolved''))"

definition spec_status_frame :: "issue \<Rightarrow> issue \<Rightarrow> bool" where
  "spec_status_frame i i' \<longleftrightarrow> i' = i\<lparr>status := status i', resolvedAt := resolvedAt i'\<rparr>"

section \<open>Rounding to doubles\<close>




lemma binade_bounds:
  assumes "0 < x"
  shows "2 powi binade x \<le> x" "x < 2 powi (binade x + 1)"
proof -
  show "2 powi binade x \<le> x"
  proof (cases "1 \<le> x")
    case True
    let ?n = "nat \<lfloor>x\<rfloor>"
    from True have n: "0 < ?n" by simp
    from floorlog_bounds [OF n, of 2] have b: "2 ^ (floorlog 2 ?n - 1) \<le> ?n" by simp
    from n have fl: "0 < floorlog 2 ?n" by (simp add: floorlog_eq_zero_iff Suc_le_eq not_le flip: not_le)
    have "(2::rat) powi (int (floorlog 2 ?n) - 1) = 2 ^ (floorlog 2 ?n - 1)"
      using fl by (simp add: power_int_def nat_diff_distrib')
    also have "\<dots> = rat_of_nat (2 ^ (floorlog 2 ?n - 1))" by simp
    also have "\<dots> \<le> rat_of_nat ?n" using b by (simp only: of_nat_le_iff)
    also have "\<dots> \<le> x" using True by (simp add: of_nat_nat)
    finally show ?thesis using True by (simp add: binade_def)
  next
    case False
    let ?m = "nat (\<lceil>1 / x\<rceil> - 1)"
    from False assms have "1 < 1 / x" by (simp add: field_simps)
    then have c: "2 \<le> \<lceil>1 / x\<rceil>" by (simp add: le_ceiling_iff)
    then have m: "0 < ?m" by simp
    from floorlog_bounds [OF m, of 2] have b: "?m < 2 ^ floorlog 2 ?m" by simp
    then have "\<lceil>1 / x\<rceil> - 1 < 2 ^ floorlog 2 ?m" using c by (simp add: nat_less_iff)
    then have "\<lceil>1 / x\<rceil> \<le> 2 ^ floorlog 2 ?m" by simp
    then have "1 / x \<le> 2 ^ floorlog 2 ?m"
      by (metis ceiling_le_iff of_int_numeral of_int_power)
    then have "1 / 2 ^ floorlog 2 ?m \<le> x" using assms by (simp add: field_simps)
    moreover have "(2::rat) powi (- int (floorlog 2 ?m)) = 1 / 2 ^ floorlog 2 ?m"
      by (simp add: power_int_minus_divide)
    ultimately show ?thesis using False by (simp add: binade_def)
  qed
  show "x < 2 powi (binade x + 1)"
  proof (cases "1 \<le> x")
    case True
    let ?n = "nat \<lfloor>x\<rfloor>"
    from True have n: "0 < ?n" by simp
    from floorlog_bounds [OF n, of 2] have b: "?n < 2 ^ floorlog 2 ?n" by simp
    then have "\<lfloor>x\<rfloor> < 2 ^ floorlog 2 ?n" using n by (simp add: nat_less_iff)
    then have "x < 2 ^ floorlog 2 ?n"
      by (metis floor_less_iff of_int_numeral of_int_power)
    then show ?thesis using True by (simp add: binade_def)
  next
    case False
    let ?m = "nat (\<lceil>1 / x\<rceil> - 1)"
    from False assms have "1 < 1 / x" by (simp add: field_simps)
    then have c: "2 \<le> \<lceil>1 / x\<rceil>" by (simp add: le_ceiling_iff)
    then have m: "0 < ?m" by simp
    from m have fl: "0 < floorlog 2 ?m" by (simp add: floorlog_eq_zero_iff flip: not_le)
    from floorlog_bounds [OF m, of 2] have b: "2 ^ (floorlog 2 ?m - 1) \<le> ?m" by simp
    then have "2 ^ (floorlog 2 ?m - 1) \<le> \<lceil>1 / x\<rceil> - 1" using c by (simp add: le_nat_iff)
    then have "2 ^ (floorlog 2 ?m - 1) < \<lceil>1 / x\<rceil>" by simp
    then have "2 ^ (floorlog 2 ?m - 1) < 1 / x"
      by (metis less_ceiling_iff of_int_numeral of_int_power)
    then have "x < 1 / 2 ^ (floorlog 2 ?m - 1)" using assms by (simp add: field_simps)
    moreover have "(2::rat) powi (- int (floorlog 2 ?m) + 1) = 1 / 2 ^ (floorlog 2 ?m - 1)"
    proof -
      have "- int (floorlog 2 ?m) + 1 = - int (floorlog 2 ?m - 1)" using fl by simp
      then show ?thesis by (simp only: power_int_minus_divide power_int_of_nat)
    qed
    ultimately show ?thesis using False by (simp add: binade_def)
  qed
qed








lemma powi2_less_cancel: "(2::rat) powi a < 2 powi b \<Longrightarrow> a < b"
  by (metis linorder_not_less one_le_numeral power_int_increasing)

lemma binade_eqI:
  assumes "0 < x" "2 powi e \<le> x" "x < 2 powi (e + 1)"
  shows "binade x = e"
proof -
  have "(2::rat) powi binade x \<le> x" using binade_bounds(1) [OF assms(1)] .
  with assms(3) have "(2::rat) powi binade x < 2 powi (e + 1)" by simp
  then have u: "binade x < e + 1" by (rule powi2_less_cancel)
  have "x < 2 powi (binade x + 1)" using binade_bounds(2) [OF assms(1)] .
  with assms(2) have "(2::rat) powi e < 2 powi (binade x + 1)" by simp
  then have "e < binade x + 1" by (rule powi2_less_cancel)
  with u show ?thesis by simp
qed

lemma rne_eqI:
  assumes "of_int k \<le> x" "x - of_int k < 1 / 2"
  shows "rne x = k"
proof -
  from assms have "\<lfloor>x\<rfloor> = k" by (intro floor_unique) simp_all
  with assms show ?thesis by (simp add: rne_def)
qed

lemma rne_tie_even:
  assumes "x = of_int k + 1 / 2" "odd k"
  shows "rne x = k + 1"
proof -
  from assms have "\<lfloor>x\<rfloor> = k" by (intro floor_unique) simp_all
  with assms show ?thesis by (simp add: rne_def)
qed

lemma round_double_eqI:
  assumes "0 < x" "2 powi e \<le> x" "x < 2 powi (e + 1)" "- 1022 \<le> e"
    and "rne (x / 2 powi (e - 52)) = k"
  shows "round_double x = of_int k * 2 powi (e - 52)"
proof -
  have "binade x = e" using assms(1-3) by (rule binade_eqI)
  with assms(1,4) have "ulp x = 2 powi (e - 52)" by (simp add: ulp_def)
  with assms(1,5) show ?thesis by (simp add: round_double_def)
qed

lemma round_double_100000: "round_double 100000 = 100000"
proof -
  have "rne (100000 / 2 powi (16 - 52)) = 100000 * 2 ^ 36"
    by (rule rne_eqI) (simp_all add: power_int_minus_divide)
  from round_double_eqI [OF _ _ _ _ this] show ?thesis
    by (simp add: power_int_minus_divide)
qed





lemma round_double_0: "round_double 0 = 0"
  by (simp add: round_double_def)

lemma round_double_half_product:
  "round_double ((1 / 2 - 1 / 2 ^ 54) * 900000) = 450000 - 1 / 2 ^ 34"
proof -
  have "rne ((1 / 2 - 1 / 2 ^ 54) * 900000 / 2 powi (18 - 52)) = 450000 * 2 ^ 34 - 1"
    by (rule rne_eqI) (simp_all add: power_int_minus_divide)
  from round_double_eqI [OF _ _ _ _ this] show ?thesis
    by (simp add: power_int_minus_divide)
qed

lemma round_double_half_sum:
  "round_double (100000 + (450000 - 1 / 2 ^ 34)) = 550000"
proof -
  have "rne ((100000 + (450000 - 1 / 2 ^ 34)) / 2 powi (19 - 52)) = (550000 * 2 ^ 33 - 1) + 1"
    by (rule rne_tie_even) (simp_all add: power_int_minus_divide)
  from round_double_eqI [OF _ _ _ _ this] show ?thesis
    by (simp add: power_int_minus_divide)
qed

section \<open>Basic facts\<close>

lemma truthy_falsy: "truthy v \<longleftrightarrow> \<not> falsy v"
  by (induction v rule: truthy.induct) simp_all

lemma number_text_no_capital:
  "number_text n \<Longrightarrow> c \<in> set n \<Longrightarrow> c \<in> set ''0123456789.e+-InfinityNaN''"
  unfolding number_text_def by (blast dest: subsetD)

lemma ToString_Resolved: "ToString v = ''Resolved'' \<longleftrightarrow> v = JStr ''Resolved''"
proof (cases v)
  case (JNum n)
  have "n \<noteq> ''Resolved''" if "number_text n"
  proof
    assume "n = ''Resolved''"
    then have "CHR ''R'' \<in> set n" by simp
    with that have "CHR ''R'' \<in> set ''0123456789.e+-InfinityNaN''"
      by (rule number_text_no_capital)
    then show False by simp
  qed
  with JNum show ?thesis by auto
qed (auto split: if_splits)



lemma generateIssueId_0: "generateIssueId 0 = ''100000''"
  by (simp add: generateIssueId_def round_double_0 round_double_100000 toString_def
      toString_nat.simps digit_char_def)

text \<open>
  The draw just below one half, \<open>0.49999999999999994\<close>: the exact value of the sum lies
  below 550000, the doubles round it up.
\<close>

lemma generateIssueId_below_half: "generateIssueId (1 / 2 - 1 / 2 ^ 54) = ''550000''"
  by (simp only: generateIssueId_def round_double_half_product round_double_half_sum)
     (simp add: toString_def toString_nat.simps digit_char_def)

lemma pothole_body_fields:
  "pothole_body ''issueType'' = Some (JStr ''Pothole'')"
  "pothole_body ''latitude'' = Some (JStr ''12.5'')"
  "pothole_body ''longitude'' = Some (JStr ''77.5'')"
  "pothole_body ''description'' = Some (JStr ''Deep hole'')"
  "pothole_body ''citizenContact'' = Some (JStr ''+911234567890'')"
  "pothole_body ''landmark'' = None"
  by (simp_all add: pothole_body_def)

lemma pothole_issue_fields:
  "issueId pothole_issue = ''100000''" "citizenContact pothole_issue = ''+911234567890''"
  "status pothole_issue = ''Pending''" "resolvedAt pothole_issue = None"
  "createdAt pothole_issue = 0" "updatedAt pothole_issue = 0" "assignedTo pothole_issue = None"
  by (simp_all add: pothole_issue_def)

lemma validate_pothole_issue: "validate pothole_issue"
  by (simp add: validate_def pothole_issue_def issueType_enum_def status_enum_def)

lemma create_pothole_at:
  "create example_parseFloat pothole_body None 0 t [] =
     (Created ''Issue reported successfully!'' ''100000'',
      [pothole_issue\<lparr>createdAt := t, updatedAt := t\<rparr>],
      [(''+911234567890'', confirmationMessage ''100000'' ''Pothole'')])"
  by (simp add: create_def Let_def pothole_body_fields generateIssueId_0 route_def
      save_new_def pothole_issue_def example_parseFloat_def validate_def issueType_enum_def
      status_enum_def geo_indexable_def)

lemma create_pothole:
  "create example_parseFloat pothole_body None 0 0 [] =
     (Created ''Issue reported successfully!'' ''100000'', [pothole_issue],
      [(''+911234567890'', confirmationMessage ''100000'' ''Pothole'')])"
  by (simp add: create_pothole_at pothole_issue_def)

lemma report_pothole:
  "report example_parseFloat None pothole_body None 0 0 [] =
     (Created ''Issue reported successfully!'' ''100000'', [pothole_issue],
      [(''+911234567890'', confirmationMessage ''100000'' ''Pothole'')])"
  by (simp add: report_def create_pothole)

subsection \<open>The collection\<close>

lemma findOne_Some: "findOne iid st = Some i \<Longrightarrow> i \<in> set st \<and> issueId i = iid"
  unfolding findOne_def by (induction st) (auto split: if_splits)

lemma findOne_None: "findOne iid st = None \<longleftrightarrow> iid \<notin> issueId ` set st"
  unfolding findOne_def by (induction st) auto


lemma updateFirst_pred:
  "\<forall>i\<in>set st. P i \<Longrightarrow> \<forall>i\<in>set st. issueId i = iid \<longrightarrow> P (f i) \<Longrightarrow>
   \<forall>i\<in>set (updateFirst iid f st). P i"
  by (induction st) auto

lemma updateFirst_map:
  "\<forall>i\<in>set st. issueId i = iid \<longrightarrow> g (f i) = g i \<Longrightarrow>
   map g (updateFirst iid f st) = map g st"
  by (induction st) auto

lemma updateFirst_rel:
  "\<forall>i. R i i \<Longrightarrow> \<forall>i\<in>set st. issueId i = iid \<longrightarrow> R i (f i) \<Longrightarrow>
   list_all2 R st (updateFirst iid f st)"
  by (induction st) (auto simp: list_all2_refl)

lemma updateFirst_const_rel:
  "\<forall>i. R i i \<Longrightarrow> findOne iid st = Some i \<Longrightarrow> R i s \<Longrightarrow>
   list_all2 R st (updateFirst iid (\<lambda>_. s) st)"
  unfolding findOne_def by (induction st) (auto simp: list_all2_refl split: if_splits)

lemma findOne_updateFirst:
  "findOne iid st = Some i \<Longrightarrow> issueId (f i) = iid \<Longrightarrow>
   findOne iid (updateFirst iid f st) = Some (f i)"
  unfolding findOne_def by (induction st) (auto split: if_splits)

subsection \<open>What each handler does to the collection\<close>

lemma create_store:
  "fst (snd (create pf b fl r now st)) = st \<or>
   (\<exists>i. fst (snd (create pf b fl r now st)) = st @ [i] \<and> validate i \<and>
        issueId i = generateIssueId r \<and> issueId i \<notin> issueId ` set st \<and>
        status i = ''Pending'' \<and> resolvedAt i = None \<and> createdAt i = now)"
  by (simp add: create_def Let_def save_new_def)

lemma report_store:
  "fst (snd (report pf err b fl r now st)) = st \<or>
   (\<exists>i. fst (snd (report pf err b fl r now st)) = st @ [i] \<and> validate i \<and>
        issueId i = generateIssueId r \<and> issueId i \<notin> issueId ` set st \<and>
        status i = ''Pending'' \<and> resolvedAt i = None \<and> createdAt i = now)"
  using create_store [of pf b fl r now st] by (cases err) (simp_all add: report_def)

lemma status_patch_eq:
  "status_patch s now i =
     i\<lparr>status := s, resolvedAt := (if s = ''Resolved'' then Some now else resolvedAt i),
       updatedAt := now\<rparr>"
  by (simp add: status_patch_def apply_set_def)

lemma update_status_unfold:
  "b ''issueId'' = Some v \<Longrightarrow> truthy (Some v) \<Longrightarrow> b ''status'' = Some w \<Longrightarrow> truthy (Some w) \<Longrightarrow>
   update_status b now st =
     (case findOne (ToString v) st of
        None \<Rightarrow> (NotFound ''Issue not found with that ID.'', st, [])
      | Some i \<Rightarrow>
          (Ok ''Status updated successfully!'' (status_patch (ToString w) now i),
           updateFirst (ToString v) (status_patch (ToString w) now) st,
           [(citizenContact i, updateMessage (ToString v) (ToString w))]))"
  by (simp add: update_status_def Let_def findOneAndUpdate_def status_patch_def
      apply_set_def ToString_Resolved split: option.splits)

lemma update_status_falsy:
  "\<not> truthy (b ''issueId'') \<or> \<not> truthy (b ''status'') \<Longrightarrow>
   update_status b now st = (BadRequest ''Issue ID and a new status are required.'', st, [])"
  by (simp add: update_status_def)

lemma truthy_Some: "truthy x \<Longrightarrow> \<exists>v. x = Some v"
  by (cases x) simp_all

lemma update_status_store:
  "fst (snd (update_status b now st)) = st \<or>
   (\<exists>iid w. b ''status'' = Some w \<and>
      fst (snd (update_status b now st)) = updateFirst iid (status_patch (ToString w) now) st)"
proof (cases "truthy (b ''issueId'') \<and> truthy (b ''status'')")
  case False
  then show ?thesis using update_status_falsy [of b now st] by auto
next
  case True
  then obtain v w where f: "b ''issueId'' = Some v" "truthy (Some v)"
      "b ''status'' = Some w" "truthy (Some w)"
    by (metis truthy_Some)
  show ?thesis
  proof (cases "findOne (ToString v) st")
    case None
    then show ?thesis by (simp add: update_status_unfold [OF f])
  next
    case (Some i)
    then have "fst (snd (update_status b now st)) =
        updateFirst (ToString v) (status_patch (ToString w) now) st"
      by (simp add: update_status_unfold [OF f])
    with f(3) show ?thesis by blast
  qed
qed

lemma assign_issue_falsy:
  "\<not> truthy (b ''issueId'') \<or> \<not> truthy (b ''userId'') \<Longrightarrow>
   assign_issue co b now st =
     (BadRequest ''Issue ID and User ID are required for assignment.'', st, [])"
  by (simp add: assign_issue_def)

lemma assign_issue_unfold:
  "b ''issueId'' = Some v \<Longrightarrow> truthy (Some v) \<Longrightarrow> b ''userId'' = Some u \<Longrightarrow> truthy (Some u) \<Longrightarrow>
   assign_issue co b now st =
     (case findOne (ToString v) st of
        None \<Rightarrow> (NotFound ''Issue not found with that ID.'', st, [])
      | Some i \<Rightarrow>
          (case co u of
             None \<Rightarrow> (ServerError ''Failed to assign issue.'', st, [])
           | Some uid \<Rightarrow>
               if \<not> validate i then (ServerError ''Failed to assign issue.'', st, [])
               else if assignedTo i = Some uid
               then (Ok ''Issue assigned successfully!'' i, st, [])
               else (Ok ''Issue assigned successfully!'' (i\<lparr>assignedTo := Some uid, updatedAt := now\<rparr>),
                     updateFirst (ToString v) (\<lambda>_. i\<lparr>assignedTo := Some uid, updatedAt := now\<rparr>) st, [])))"
  by (simp add: assign_issue_def Let_def split: option.splits)

lemma assign_issue_store:
  "fst (snd (assign_issue co b now st)) = st \<or>
   (\<exists>iid i uid. findOne iid st = Some i \<and>
      fst (snd (assign_issue co b now st)) =
        updateFirst iid (\<lambda>_. i\<lparr>assignedTo := Some uid, updatedAt := now\<rparr>) st)"
proof (cases "truthy (b ''issueId'') \<and> truthy (b ''userId'')")
  case False
  then show ?thesis using assign_issue_falsy [of b co now st] by auto
next
  case True
  then obtain v u where f: "b ''issueId'' = Some v" "truthy (Some v)"
      "b ''userId'' = Some u" "truthy (Some u)"
    by (metis truthy_Some)
  show ?thesis
  proof (cases "findOne (ToString v) st")
    case None
    then show ?thesis by (simp add: assign_issue_unfold [OF f])
  next
    case (Some i)
    then show ?thesis
      by (cases "co u") (auto simp: assign_issue_unfold [OF f])
  qed
qed

lemma handle_store_cases:
  "fst (snd (handle pf co q st)) = st \<or>
   (\<exists>i. fst (snd (handle pf co q st)) = st @ [i] \<and> validate i \<and>
        issueId i \<notin> issueId ` set st \<and> status i = ''Pending'' \<and> resolvedAt i = None \<and>
        createdAt i = clock_of q) \<or>
   (\<exists>iid s. fst (snd (handle pf co q st)) = updateFirst iid (status_patch s (clock_of q)) st) \<or>
   (\<exists>iid i uid now. findOne iid st = Some i \<and>
      fst (snd (handle pf co q st)) =
        updateFirst iid (\<lambda>_. i\<lparr>assignedTo := Some uid, updatedAt := now\<rparr>) st)"
proof (cases q)
  case (PostReport err b fl r now)
  show ?thesis unfolding PostReport handle.simps clock_of.simps
    using report_store [of pf err b fl r now st] by blast
next
  case (PostUpdateStatus b now)
  show ?thesis unfolding PostUpdateStatus handle.simps clock_of.simps
    using update_status_store [of b now st] by blast
next
  case (PostAssignIssue b now)
  show ?thesis unfolding PostAssignIssue handle.simps clock_of.simps
    using assign_issue_store [of co b now st] by blast
qed

lemma update_status_single:
  assumes "issueId i = iid" "iid \<noteq> []" "s \<noteq> []"
  shows "update_status [''issueId'' \<mapsto> JStr iid, ''status'' \<mapsto> JStr s] t [i] =
     (Ok ''Status updated successfully!''
        (i\<lparr>status := s, resolvedAt := (if s = ''Resolved'' then Some t else resolvedAt i),
           updatedAt := t\<rparr>),
      [i\<lparr>status := s, resolvedAt := (if s = ''Resolved'' then Some t else resolvedAt i),
           updatedAt := t\<rparr>],
      [(citizenContact i, updateMessage iid s)])"
  using assms
  by (simp add: update_status_unfold [of _ "JStr iid" "JStr s"] findOne_def status_patch_eq)

section \<open>Department routing\<close>

text \<open>
  C4. The routing sends Pothole to Public Works, Garbage Overflow to Sanitation,
  Streetlight Outage to Electrical, Water Leakage to Water Department, and every other
  string, Other among them, to General Services. It is a plain function of the
  category: it returns a department for every input and has no error result.
\<close>

theorem route_table:
  "route ''Pothole'' = ''Public Works'' \<and>
   route ''Garbage Overflow'' = ''Sanitation'' \<and>
   route ''Streetlight Outage'' = ''Electrical'' \<and>
   route ''Water Leakage'' = ''Water Department'' \<and>
   route ''Other'' = ''General Services'' \<and>
   (\<forall>c. c \<notin> {''Pothole'', ''Garbage Overflow'', ''Streetlight Outage'', ''Water Leakage''}
      \<longrightarrow> route c = ''General Services'')"
  by (simp add: route_def)

theorem route_table_witness: "route ''Road Rage'' = ''General Services''"
  using route_table by simp

section \<open>Status and resolution timestamp\<close>

lemma handle_resolved_has_timestamp:
  assumes "resolved_has_timestamp st"
  shows "resolved_has_timestamp (fst (snd (handle pf co q st)))"
proof -
  let ?P = "\<lambda>i::issue. status i = ''Resolved'' \<longrightarrow> resolvedAt i \<noteq> None"
  have P: "\<forall>i\<in>set st. ?P i" using assms by (simp add: resolved_has_timestamp_def)
  from handle_store_cases [of pf co q st] show ?thesis
  proof (elim disjE exE conjE)
    assume "fst (snd (handle pf co q st)) = st"
    with assms show ?thesis by simp
  next
    fix i assume "fst (snd (handle pf co q st)) = st @ [i]" "status i = ''Pending''"
    with P show ?thesis by (simp add: resolved_has_timestamp_def)
  next
    fix iid s
    assume e: "fst (snd (handle pf co q st)) = updateFirst iid (status_patch s (clock_of q)) st"
    have "\<forall>i\<in>set (updateFirst iid (status_patch s (clock_of q)) st). ?P i"
      by (rule updateFirst_pred [OF P]) (simp add: status_patch_eq)
    with e show ?thesis by (simp add: resolved_has_timestamp_def)
  next
    fix iid i uid now
    assume f: "findOne iid st = Some i"
      and e: "fst (snd (handle pf co q st)) =
        updateFirst iid (\<lambda>_. i\<lparr>assignedTo := Some uid, updatedAt := now\<rparr>) st"
    from f have "i \<in> set st" by (simp add: findOne_Some)
    with P have "?P i" by blast
    then have "\<forall>i\<in>set (updateFirst iid (\<lambda>_. i\<lparr>assignedTo := Some uid, updatedAt := now\<rparr>) st). ?P i"
      by (intro updateFirst_pred [OF P]) simp
    with e show ?thesis by (simp add: resolved_has_timestamp_def)
  qed
qed

lemma run_resolved_has_timestamp:
  "resolved_has_timestamp st \<Longrightarrow> resolved_has_timestamp (run pf co qs st)"
  by (induction qs arbitrary: st) (simp_all add: handle_resolved_has_timestamp)

text \<open>
  C1, as amended. One direction of the invariant holds on every state the public
  operations can reach: an issue whose status is Resolved has a \<open>resolvedAt\<close>. Each of
  \<open>/report\<close>, \<open>/update_status\<close> and \<open>/assign_issue\<close> keeps it, whatever the request,
  and so does every run of them from the empty collection.
\<close>

theorem resolved_implies_resolvedAt:
  "(resolved_has_timestamp st \<longrightarrow> resolved_has_timestamp (fst (snd (handle pf co q st)))) \<and>
   resolved_has_timestamp (run pf co qs [])"
proof
  show "resolved_has_timestamp st \<longrightarrow> resolved_has_timestamp (fst (snd (handle pf co q st)))"
    by (simp add: handle_resolved_has_timestamp)
  have "resolved_has_timestamp []"
    by (simp add: resolved_has_timestamp_def)
  then show "resolved_has_timestamp (run pf co qs [])"
    by (rule run_resolved_has_timestamp)
qed

text \<open>
  The run that creates an issue and resolves it: the status is Resolved and \<open>resolvedAt\<close>
  is the time of the update.
\<close>

theorem resolved_implies_resolvedAt_witness:
  "resolved_has_timestamp
     (run example_parseFloat example_castObjectId
        [PostReport None pothole_body None 0 0,
         PostUpdateStatus [''issueId'' \<mapsto> JStr ''100000'', ''status'' \<mapsto> JStr ''Resolved''] 1] []) \<and>
   map status
     (run example_parseFloat example_castObjectId
        [PostReport None pothole_body None 0 0,
         PostUpdateStatus [''issueId'' \<mapsto> JStr ''100000'', ''status'' \<mapsto> JStr ''Resolved''] 1] []) =
     [''Resolved''] \<and>
   map resolvedAt
     (run example_parseFloat example_castObjectId
        [PostReport None pothole_body None 0 0,
         PostUpdateStatus [''issueId'' \<mapsto> JStr ''100000'', ''status'' \<mapsto> JStr ''Resolved''] 1] []) =
     [Some 1]"
  using resolved_implies_resolvedAt [of "[]" example_parseFloat example_castObjectId
      "PostReport None pothole_body None 0 0"
      "[PostReport None pothole_body None 0 0,
        PostUpdateStatus [''issueId'' \<mapsto> JStr ''100000'', ''status'' \<mapsto> JStr ''Resolved''] 1]"]
  by (simp add: report_pothole update_status_single pothole_issue_fields)

text \<open>
  C1, as stated, fails. Create an issue, resolve it, then set it back to Pending: the
  handler writes \<open>resolvedAt\<close> only when the new status is Resolved and never clears it,
  so the issue is Pending with a \<open>resolvedAt\<close>.
\<close>

theorem resolvedAt_iff_counterexample:
  "run example_parseFloat example_castObjectId
     [PostReport None pothole_body None 0 0,
      PostUpdateStatus [''issueId'' \<mapsto> JStr ''100000'', ''status'' \<mapsto> JStr ''Resolved''] 1,
      PostUpdateStatus [''issueId'' \<mapsto> JStr ''100000'', ''status'' \<mapsto> JStr ''Pending''] 2] [] =
     [pothole_issue\<lparr>status := ''Pending'', resolvedAt := Some 1, updatedAt := 2\<rparr>] \<and>
   \<not> spec_resolvedAt_iff
     (run example_parseFloat example_castObjectId
        [PostReport None pothole_body None 0 0,
         PostUpdateStatus [''issueId'' \<mapsto> JStr ''100000'', ''status'' \<mapsto> JStr ''Resolved''] 1,
         PostUpdateStatus [''issueId'' \<mapsto> JStr ''100000'', ''status'' \<mapsto> JStr ''Pending''] 2] [])"
  by (simp add: report_pothole update_status_single pothole_issue_fields spec_resolvedAt_iff_def)

section \<open>Status values outside the enumeration\<close>

lemma update_status_not_found:
  assumes "b ''issueId'' = Some v" "truthy (Some v)" "b ''status'' = Some w" "truthy (Some w)"
    and "findOne (ToString v) st = None"
  shows "update_status b now st = (NotFound ''Issue not found with that ID.'', st, [])"
  using assms(5) by (simp add: update_status_unfold [OF assms(1-4)])

text \<open>
  C2. The handler checks only that \<open>issueId\<close> and \<open>status\<close> are there. On the
  collection that one \<open>/report\<close> leaves, a status outside the schema's enumeration is
  answered with 200 and written to the document, where the claim has a validation
  error.
\<close>

theorem update_status_accepts_unlisted_status:
  "''Banana'' \<notin> set status_enum \<and>
   fst (snd (report example_parseFloat None pothole_body None 0 0 [])) = [pothole_issue] \<and>
   update_status [''issueId'' \<mapsto> JStr ''100000'', ''status'' \<mapsto> JStr ''Banana''] 5 [pothole_issue] =
     (Ok ''Status updated successfully!'' (pothole_issue\<lparr>status := ''Banana'', updatedAt := 5\<rparr>),
      [pothole_issue\<lparr>status := ''Banana'', updatedAt := 5\<rparr>],
      [(''+911234567890'', updateMessage ''100000'' ''Banana'')])"
  by (simp add: status_enum_def report_pothole update_status_single pothole_issue_fields)

text \<open>
  The status stored after that request is the unlisted one.
\<close>

theorem update_status_accepts_unlisted_status_witness:
  "map status
     (fst (snd (update_status [''issueId'' \<mapsto> JStr ''100000'', ''status'' \<mapsto> JStr ''Banana''] 5
                  [pothole_issue]))) = [''Banana'']"
  using update_status_accepts_unlisted_status by simp

section \<open>Average resolution time\<close>

lemma sumResolution_skips: "sumResolution xs acc = acc"
  by (induction xs acc rule: sumResolution.induct) (simp_all add: reportedAt_def split: option.splits)

lemma toFixed1_0: "toFixed1 0 = ''0.0''"
  by (simp add: toFixed1_def toString_nat.simps digit_char_def)

lemma avgResolutionTimeHours_const: "avgResolutionTimeHours st = ''0.0''"
  by (simp add: avgResolutionTimeHours_def Let_def sumResolution_skips toFixed1_0 round_double_0)

text \<open>
  C3. An issue reported at time 0 and resolved two hours later: the average the
  specification describes is 2 hours, the handler answers \<open>0.0\<close>. The loop counts an
  issue only when \<open>issue.reportedAt\<close> is a date, which it never is
  (\<open>avgResolutionTimeHours_const\<close>: the answer is \<open>0.0\<close> on every collection).
\<close>

theorem analytics_average_ignores_resolved:
  "run example_parseFloat example_castObjectId
     [PostReport None pothole_body None 0 0,
      PostUpdateStatus [''issueId'' \<mapsto> JStr ''100000'', ''status'' \<mapsto> JStr ''Resolved''] 7200000] [] =
     [pothole_issue\<lparr>status := ''Resolved'', resolvedAt := Some 7200000, updatedAt := 7200000\<rparr>] \<and>
   avgResolutionTimeHours
     [pothole_issue\<lparr>status := ''Resolved'', resolvedAt := Some 7200000, updatedAt := 7200000\<rparr>] =
     ''0.0'' \<and>
   spec_averageHours
     [pothole_issue\<lparr>status := ''Resolved'', resolvedAt := Some 7200000, updatedAt := 7200000\<rparr>] =
     2"
  by (simp add: report_pothole update_status_single pothole_issue_fields
      avgResolutionTimeHours_const spec_averageHours_def spec_qualifying_def)

text \<open>
  The answer of the handler after that run.
\<close>

theorem analytics_average_ignores_resolved_witness:
  "avgResolutionTimeHours
     (run example_parseFloat example_castObjectId
        [PostReport None pothole_body None 0 0,
         PostUpdateStatus [''issueId'' \<mapsto> JStr ''100000'', ''status'' \<mapsto> JStr ''Resolved''] 7200000] []) =
     ''0.0''"
  using analytics_average_ignores_resolved by simp

section \<open>Tracking ids and accepted submissions\<close>













section \<open>Resolution timestamps\<close>

lemma update_status_step:
  assumes "b ''issueId'' = Some v" "truthy (Some v)" "b ''status'' = Some w" "truthy (Some w)"
    and "findOne (ToString v) st = Some i"
  shows "\<exists>i' st'.
     update_status b now st =
       (Ok ''Status updated successfully!'' i', st',
        [(citizenContact i, updateMessage (ToString v) (ToString w))]) \<and>
     findOne (ToString v) st' = Some i' \<and> createdAt i' = createdAt i \<and>
     (w = JStr ''Resolved'' \<longrightarrow> resolvedAt i' = Some now) \<and>
     (w \<noteq> JStr ''Resolved'' \<longrightarrow> resolvedAt i' = resolvedAt i)"
proof -
  let ?i' = "status_patch (ToString w) now i"
  let ?st' = "updateFirst (ToString v) (status_patch (ToString w) now) st"
  from assms(5) have id: "issueId i = ToString v" by (simp add: findOne_Some)
  have u: "update_status b now st =
       (Ok ''Status updated successfully!'' ?i', ?st',
        [(citizenContact i, updateMessage (ToString v) (ToString w))])"
    using assms(5) by (simp add: update_status_unfold [OF assms(1-4)])
  have f: "findOne (ToString v) ?st' = Some ?i'"
    using assms(5) id by (intro findOne_updateFirst) (simp_all add: status_patch_eq)
  have "update_status b now st =
       (Ok ''Status updated successfully!'' ?i', ?st',
        [(citizenContact i, updateMessage (ToString v) (ToString w))]) \<and>
     findOne (ToString v) ?st' = Some ?i' \<and> createdAt ?i' = createdAt i \<and>
     (w = JStr ''Resolved'' \<longrightarrow> resolvedAt ?i' = Some now) \<and>
     (w \<noteq> JStr ''Resolved'' \<longrightarrow> resolvedAt ?i' = resolvedAt i)"
    using u f by (simp add: status_patch_eq ToString_Resolved)
  then show ?thesis by blast
qed

lemma handle_times_ordered:
  assumes "times_ordered T st" "T \<le> clock_of q"
  shows "times_ordered (clock_of q) (fst (snd (handle pf co q st)))"
proof -
  let ?P = "\<lambda>i::issue. createdAt i \<le> clock_of q \<and>
              (\<forall>t. resolvedAt i = Some t \<longrightarrow> createdAt i \<le> t)"
  have P: "\<forall>i\<in>set st. ?P i"
    using assms by (fastforce simp: times_ordered_def)
  from handle_store_cases [of pf co q st] show ?thesis
  proof (elim disjE exE conjE)
    assume "fst (snd (handle pf co q st)) = st"
    with P show ?thesis by (simp add: times_ordered_def)
  next
    fix i
    assume "fst (snd (handle pf co q st)) = st @ [i]" "resolvedAt i = None"
      "createdAt i = clock_of q"
    with P show ?thesis by (simp add: times_ordered_def)
  next
    fix iid s
    assume e: "fst (snd (handle pf co q st)) = updateFirst iid (status_patch s (clock_of q)) st"
    have "\<forall>i\<in>set (updateFirst iid (status_patch s (clock_of q)) st). ?P i"
      by (rule updateFirst_pred [OF P]) (use P in \<open>simp add: status_patch_eq\<close>)
    with e show ?thesis by (simp add: times_ordered_def)
  next
    fix iid i uid now
    assume f: "findOne iid st = Some i"
      and e: "fst (snd (handle pf co q st)) =
        updateFirst iid (\<lambda>_. i\<lparr>assignedTo := Some uid, updatedAt := now\<rparr>) st"
    from f have "i \<in> set st" by (simp add: findOne_Some)
    with P have "?P i" by blast
    then have "\<forall>i\<in>set (updateFirst iid (\<lambda>_. i\<lparr>assignedTo := Some uid, updatedAt := now\<rparr>) st). ?P i"
      by (intro updateFirst_pred [OF P]) simp
    with e show ?thesis by (simp add: times_ordered_def)
  qed
qed

lemma run_times_ordered:
  "times_ordered T st \<Longrightarrow> sorted (T # map clock_of qs) \<Longrightarrow>
   \<exists>T'. times_ordered T' (run pf co qs st)"
proof (induction qs arbitrary: T st)
  case Nil
  then show ?case by auto
next
  case (Cons q qs)
  from Cons.prems(2) have "T \<le> clock_of q" "sorted (clock_of q # map clock_of qs)" by simp_all
  with Cons.prems(1) show ?case
    using Cons.IH [of "clock_of q" "fst (snd (handle pf co q st))"]
    by (simp add: handle_times_ordered)
qed

lemma run_resolved_after_created:
  assumes "sorted (map clock_of qs)"
  shows "\<forall>i\<in>set (run pf co qs []). \<forall>t. resolvedAt i = Some t \<longrightarrow> createdAt i \<le> t"
proof (cases qs)
  case Nil
  then show ?thesis by simp
next
  case (Cons q qs')
  have "times_ordered (clock_of q) []" by (simp add: times_ordered_def)
  moreover have "sorted (clock_of q # map clock_of qs)" using assms Cons by simp
  ultimately obtain T' where "times_ordered T' (run pf co qs [])"
    using run_times_ordered by blast
  then show ?thesis by (simp add: times_ordered_def)
qed

text \<open>
  C6, as amended. A status update with both fields truthy, for an id that is in the
  collection, succeeds and the document it returns is the one stored. When the new
  status is Resolved its \<open>resolvedAt\<close> is the clock reading of the update; when the new
  status is anything else \<open>resolvedAt\<close> is what it was, so absent if it was absent. In
  every run from the empty collection whose clock readings never decrease from one
  request to the next, every \<open>resolvedAt\<close> is at or after the \<open>createdAt\<close> of its issue.
\<close>

theorem update_status_resolvedAt:
  "(b ''issueId'' = Some v \<and> truthy (Some v) \<and> b ''status'' = Some w \<and> truthy (Some w) \<and>
    findOne (ToString v) st = Some i \<longrightarrow>
      (\<exists>i' st'.
         update_status b now st =
           (Ok ''Status updated successfully!'' i', st',
            [(citizenContact i, updateMessage (ToString v) (ToString w))]) \<and>
         findOne (ToString v) st' = Some i' \<and> createdAt i' = createdAt i \<and>
         (w = JStr ''Resolved'' \<longrightarrow> resolvedAt i' = Some now) \<and>
         (w \<noteq> JStr ''Resolved'' \<longrightarrow> resolvedAt i' = resolvedAt i))) \<and>
   (sorted (map clock_of qs) \<longrightarrow>
      (\<forall>j\<in>set (run pf co qs []). \<forall>t. resolvedAt j = Some t \<longrightarrow> createdAt j \<le> t))"
  using update_status_step [of b v w st i now] run_resolved_after_created [of qs pf co]
  by blast

text \<open>
  An issue created at time 10 and resolved at time 15.
\<close>

theorem update_status_resolvedAt_witness:
  "(\<exists>i' st'.
      update_status [''issueId'' \<mapsto> JStr ''100000'', ''status'' \<mapsto> JStr ''Resolved''] 15
        [pothole_issue\<lparr>createdAt := 10, updatedAt := 10\<rparr>] =
        (Ok ''Status updated successfully!'' i', st',
         [(''+911234567890'', updateMessage ''100000'' ''Resolved'')]) \<and>
      findOne ''100000'' st' = Some i' \<and> createdAt i' = 10 \<and> resolvedAt i' = Some 15) \<and>
   run example_parseFloat example_castObjectId
     [PostReport None pothole_body None 0 10,
      PostUpdateStatus [''issueId'' \<mapsto> JStr ''100000'', ''status'' \<mapsto> JStr ''Resolved''] 15] [] =
     [pothole_issue\<lparr>status := ''Resolved'', resolvedAt := Some 15, createdAt := 10,
        updatedAt := 15\<rparr>] \<and>
   map createdAt
     (run example_parseFloat example_castObjectId
        [PostReport None pothole_body None 0 10,
         PostUpdateStatus [''issueId'' \<mapsto> JStr ''100000'', ''status'' \<mapsto> JStr ''Resolved''] 15] []) =
     [10] \<and>
   map resolvedAt
     (run example_parseFloat example_castObjectId
        [PostReport None pothole_body None 0 10,
         PostUpdateStatus [''issueId'' \<mapsto> JStr ''100000'', ''status'' \<mapsto> JStr ''Resolved''] 15] []) =
     [Some 15]"
  using update_status_resolvedAt
     [of "[''issueId'' \<mapsto> JStr ''100000'', ''status'' \<mapsto> JStr ''Resolved'']"
      "JStr ''100000''" "JStr ''Resolved''" "[pothole_issue\<lparr>createdAt := 10, updatedAt := 10\<rparr>]"
      "pothole_issue\<lparr>createdAt := 10, updatedAt := 10\<rparr>" 15
      "[PostReport None pothole_body None 0 10,
        PostUpdateStatus [''issueId'' \<mapsto> JStr ''100000'', ''status'' \<mapsto> JStr ''Resolved''] 15]"
      example_parseFloat example_castObjectId]
  by (simp add: report_def create_pothole_at update_status_single pothole_issue_fields
      findOne_def)

text \<open>
  C6, as stated, fails: nothing compares the clock of the update with \<open>createdAt\<close>. An
  issue created at time 10 and resolved when the clock reads 5 has a \<open>resolvedAt\<close>
  before its \<open>createdAt\<close>.
\<close>

theorem update_status_clock_counterexample:
  "map createdAt
     (run example_parseFloat example_castObjectId
        [PostReport None pothole_body None 0 10,
         PostUpdateStatus [''issueId'' \<mapsto> JStr ''100000'', ''status'' \<mapsto> JStr ''Resolved''] 5] []) =
     [10] \<and>
   map resolvedAt
     (run example_parseFloat example_castObjectId
        [PostReport None pothole_body None 0 10,
         PostUpdateStatus [''issueId'' \<mapsto> JStr ''100000'', ''status'' \<mapsto> JStr ''Resolved''] 5] []) =
     [Some 5]"
  by (simp add: report_def create_pothole_at update_status_single pothole_issue_fields)

section \<open>Uniqueness of tracking ids\<close>

lemma handle_ids:
  "map issueId (fst (snd (handle pf co q st))) = map issueId st \<or>
   (\<exists>i. fst (snd (handle pf co q st)) = st @ [i] \<and> issueId i \<notin> issueId ` set st)"
proof -
  from handle_store_cases [of pf co q st] show ?thesis
  proof (elim disjE exE conjE)
    assume "fst (snd (handle pf co q st)) = st"
    then show ?thesis by simp
  next
    fix i assume "fst (snd (handle pf co q st)) = st @ [i]" "issueId i \<notin> issueId ` set st"
    then show ?thesis by blast
  next
    fix iid s
    assume "fst (snd (handle pf co q st)) = updateFirst iid (status_patch s (clock_of q)) st"
    then show ?thesis by (simp add: updateFirst_map status_patch_eq)
  next
    fix iid i uid now
    assume "findOne iid st = Some i"
      and "fst (snd (handle pf co q st)) =
        updateFirst iid (\<lambda>_. i\<lparr>assignedTo := Some uid, updatedAt := now\<rparr>) st"
    then show ?thesis using findOne_Some [of iid st i] by (simp add: updateFirst_map)
  qed
qed

lemma handle_distinct:
  "distinct (map issueId st) \<Longrightarrow> distinct (map issueId (fst (snd (handle pf co q st))))"
  using handle_ids [of pf co q st] by auto

lemma run_distinct:
  "distinct (map issueId st) \<Longrightarrow> distinct (map issueId (run pf co qs st))"
  by (induction qs arbitrary: st) (simp_all add: handle_distinct)

lemma report_taken_id:
  assumes "generateIssueId r \<in> issueId ` set st"
  shows "fst (snd (report pf err b fl r now st)) = st"
  using report_store [of pf err b fl r now st] assms by auto

lemma report_not_created_on_taken_id:
  assumes "generateIssueId r \<in> issueId ` set st"
  shows "fst (report pf err b fl r now st) \<noteq> Created m tid"
  using assms by (cases err) (simp_all add: report_def create_def Let_def save_new_def)

text \<open>
  C7. The insert of a document whose id is already in the collection fails, with
  DuplicateKey when the document passes the validators; \<open>/report\<close> with a draw whose id
  is taken leaves the collection as it was and does not answer 201. So every handler
  keeps the ids of the collection distinct, and they are distinct after every run from
  the empty collection.
\<close>

theorem issueId_unique:
  "(validate i \<and> issueId i \<in> issueId ` set st \<longrightarrow> save_new i st = Inl DuplicateKey) \<and>
   (issueId i \<in> issueId ` set st \<longrightarrow> (\<exists>e. save_new i st = Inl e)) \<and>
   (generateIssueId r \<in> issueId ` set st \<longrightarrow>
      fst (snd (report pf err b fl r now st)) = st \<and>
      (\<forall>m tid. fst (report pf err b fl r now st) \<noteq> Created m tid)) \<and>
   (distinct (map issueId st) \<longrightarrow> distinct (map issueId (fst (snd (handle pf co q st))))) \<and>
   distinct (map issueId (run pf co qs []))"
proof (intro conjI impI)
  assume "validate i \<and> issueId i \<in> issueId ` set st"
  then show "save_new i st = Inl DuplicateKey" by (simp add: save_new_def)
next
  assume "issueId i \<in> issueId ` set st"
  then show "\<exists>e. save_new i st = Inl e" by (simp add: save_new_def)
next
  assume "generateIssueId r \<in> issueId ` set st"
  then show "fst (snd (report pf err b fl r now st)) = st" by (rule report_taken_id)
next
  assume "generateIssueId r \<in> issueId ` set st"
  then show "\<forall>m tid. fst (report pf err b fl r now st) \<noteq> Created m tid"
    by (simp add: report_not_created_on_taken_id)
next
  assume "distinct (map issueId st)"
  then show "distinct (map issueId (fst (snd (handle pf co q st))))" by (rule handle_distinct)
next
  have "distinct (map issueId ([] :: issue list))" by simp
  then show "distinct (map issueId (run pf co qs []))" by (rule run_distinct)
qed

text \<open>
  Two submissions in a row with the same draw: the second is refused and the collection
  holds one issue.
\<close>

theorem issueId_unique_witness:
  "save_new (pothole_issue\<lparr>createdAt := 1\<rparr>) [pothole_issue] = Inl DuplicateKey \<and>
   run example_parseFloat example_castObjectId
     [PostReport None pothole_body None 0 0, PostReport None pothole_body None 0 1] [] =
     [pothole_issue] \<and>
   fst (report example_parseFloat None pothole_body None 0 1 [pothole_issue]) =
     ServerError ''An unexpected server error occurred while submitting your report.''"
  using issueId_unique [of "pothole_issue\<lparr>createdAt := 1\<rparr>" "[pothole_issue]" 0
      example_parseFloat None pothole_body None 1 example_castObjectId
      "PostReport None pothole_body None 0 1"
      "[PostReport None pothole_body None 0 0, PostReport None pothole_body None 0 1]"]
  by (simp add: report_pothole pothole_issue_fields generateIssueId_0 validate_def
      issueType_enum_def status_enum_def pothole_issue_def report_def create_def Let_def
      pothole_body_fields save_new_def route_def example_parseFloat_def geo_indexable_def)

section \<open>Rejected submissions\<close>

lemma report_upload_error:
  "report pf (Some e) b fl r now st = (BadRequest ''File upload error.'', st, [])"
  by (simp add: report_def)

lemma create_falsy:
  "falsy (b ''issueType'') \<or> falsy (b ''latitude'') \<or> falsy (b ''longitude'') \<or>
   falsy (b ''description'') \<or> falsy (b ''citizenContact'') \<Longrightarrow>
   create pf b fl r now st =
     (BadRequest ''Missing required fields. Please fill out all parts of the form.'', st, [])"
  by (simp add: create_def truthy_falsy)

lemma create_truthy_answers:
  assumes "\<not> (falsy (b ''issueType'') \<or> falsy (b ''latitude'') \<or> falsy (b ''longitude'') \<or>
   falsy (b ''description'') \<or> falsy (b ''citizenContact''))"
  shows "fst (create pf b fl r now st) =
           ServerError ''An unexpected server error occurred while submitting your report.'' \<or>
         fst (create pf b fl r now st) =
           Created ''Issue reported successfully!'' (generateIssueId r)"
  using assms by (simp add: create_def Let_def truthy_falsy save_new_def)

text \<open>
  C8, as amended. Create answers 400 exactly when one of \<open>issueType\<close>, \<open>latitude\<close>,
  \<open>longitude\<close>, \<open>description\<close>, \<open>citizenContact\<close> is falsy: absent, \<open>null\<close>, \<open>false\<close>, the
  number 0 or \<open>NaN\<close>, or the empty string. The 400 carries the missing-fields message.
  When all five are truthy the answer is 201 or the generic 500, which is also what a
  failure of the schema's validators is answered with.
\<close>

theorem create_validation_error_iff:
  "((\<exists>m. fst (create pf b fl r now st) = BadRequest m) \<longleftrightarrow>
      falsy (b ''issueType'') \<or> falsy (b ''latitude'') \<or> falsy (b ''longitude'') \<or>
      falsy (b ''description'') \<or> falsy (b ''citizenContact'')) \<and>
   (\<forall>m. fst (create pf b fl r now st) = BadRequest m \<longrightarrow>
      m = ''Missing required fields. Please fill out all parts of the form.'') \<and>
   ((\<forall>m. fst (create pf b fl r now st) \<noteq> BadRequest m) \<longrightarrow>
      fst (create pf b fl r now st) =
        ServerError ''An unexpected server error occurred while submitting your report.'' \<or>
      fst (create pf b fl r now st) =
        Created ''Issue reported successfully!'' (generateIssueId r))"
proof (cases "falsy (b ''issueType'') \<or> falsy (b ''latitude'') \<or> falsy (b ''longitude'') \<or>
    falsy (b ''description'') \<or> falsy (b ''citizenContact'')")
  case True
  then show ?thesis using create_falsy [OF True, of pf fl r now st] by simp
next
  case False
  then show ?thesis
    using create_truthy_answers [OF False, of pf fl r now st] by auto
qed

text \<open>
  No description; an empty latitude; a latitude that is the number 0; the complete
  submission.
\<close>

theorem create_validation_error_iff_witness:
  "fst (create example_parseFloat (pothole_body(''description'' := None)) None 0 0 []) =
     BadRequest ''Missing required fields. Please fill out all parts of the form.'' \<and>
   fst (create example_parseFloat (pothole_body(''latitude'' \<mapsto> JStr [])) None 0 0 []) =
     BadRequest ''Missing required fields. Please fill out all parts of the form.'' \<and>
   fst (create example_parseFloat (pothole_body(''latitude'' \<mapsto> JNum ''0'')) None 0 0 []) =
     BadRequest ''Missing required fields. Please fill out all parts of the form.'' \<and>
   fst (create example_parseFloat pothole_body None 0 0 []) =
     Created ''Issue reported successfully!'' ''100000''"
  using create_validation_error_iff
      [of example_parseFloat "pothole_body(''description'' := None)" None 0 0 "[]"]
    create_validation_error_iff
      [of example_parseFloat "pothole_body(''latitude'' \<mapsto> JStr [])" None 0 0 "[]"]
    create_validation_error_iff
      [of example_parseFloat "pothole_body(''latitude'' \<mapsto> JNum ''0'')" None 0 0 "[]"]
    create_validation_error_iff [of example_parseFloat pothole_body None 0 0 "[]"]
  by (simp add: pothole_body_fields create_pothole number_text_def) blast

text \<open>
  C8, as stated, fails in both directions of its reading. A submission in which no
  required field is absent, with the latitude 0 as a number, is answered with the
  missing-fields error. A submission with all five fields truthy and a category outside
  the schema's five fails the validators of \<open>save()\<close>, and that validation failure is
  answered with the generic 500, not with a validation error.
\<close>

theorem create_validation_counterexample:
  "\<not> absent ((pothole_body(''latitude'' \<mapsto> JNum ''0'')) ''issueType'') \<and>
   \<not> absent ((pothole_body(''latitude'' \<mapsto> JNum ''0'')) ''latitude'') \<and>
   \<not> absent ((pothole_body(''latitude'' \<mapsto> JNum ''0'')) ''longitude'') \<and>
   \<not> absent ((pothole_body(''latitude'' \<mapsto> JNum ''0'')) ''description'') \<and>
   \<not> absent ((pothole_body(''latitude'' \<mapsto> JNum ''0'')) ''citizenContact'') \<and>
   fst (create example_parseFloat (pothole_body(''latitude'' \<mapsto> JNum ''0'')) None 0 0 []) =
     BadRequest ''Missing required fields. Please fill out all parts of the form.'' \<and>
   save_new (pothole_issue\<lparr>issueType := ''Road Rage'', assignedDepartment := ''General Services''\<rparr>) [] =
     Inl ValidationFailed \<and>
   fst (create example_parseFloat (pothole_body(''issueType'' \<mapsto> JStr ''Road Rage'')) None 0 0 []) =
     ServerError ''An unexpected server error occurred while submitting your report.''"
  by (simp add: absent_def create_def Let_def pothole_body_fields pothole_body_def
      generateIssueId_0 route_def save_new_def pothole_issue_def validate_def
      issueType_enum_def status_enum_def example_parseFloat_def geo_indexable_def
      number_text_def)

text \<open>
  C10. When the upload step reports an error or a required field is missing (falsy),
  \<open>/report\<close> answers 400, the collection is what it was and no notification is sent.
\<close>

theorem report_rejected_no_effect:
  assumes "err \<noteq> None \<or> falsy (b ''issueType'') \<or> falsy (b ''latitude'') \<or>
    falsy (b ''longitude'') \<or> falsy (b ''description'') \<or> falsy (b ''citizenContact'')"
  shows "\<exists>m. report pf err b fl r now st = (BadRequest m, st, [])"
proof (cases err)
  case (Some e)
  then show ?thesis by (simp add: report_upload_error)
next
  case None
  with assms show ?thesis using create_falsy [of b pf fl r now st] by (simp add: report_def)
qed

text \<open>
  A refused upload, and a submission with no contact, on a collection of one issue.
\<close>

theorem report_rejected_no_effect_witness:
  "(\<exists>m. report example_parseFloat (Some ''Error: Please upload images only (jpeg, jpg, png, gif).'')
          pothole_body None 0 0 [pothole_issue] = (BadRequest m, [pothole_issue], [])) \<and>
   (\<exists>m. report example_parseFloat None (pothole_body(''citizenContact'' := None)) None 0 0
          [pothole_issue] = (BadRequest m, [pothole_issue], []))"
  using report_rejected_no_effect
      [of "Some ''Error: Please upload images only (jpeg, jpg, png, gif).''"
      pothole_body example_parseFloat None 0 0 "[pothole_issue]"]
    report_rejected_no_effect [of None "pothole_body(''citizenContact'' := None)"
      example_parseFloat None 0 0 "[pothole_issue]"]
  by simp

section \<open>What the mutating handlers leave alone\<close>

lemma status_frame_refl: "status_frame i i"
  by (simp add: status_frame_def)

lemma assign_frame_refl: "assign_frame i i"
  by (simp add: assign_frame_def)

lemma update_status_frame: "list_all2 status_frame st (fst (snd (update_status b now st)))"
proof -
  from update_status_store [of b now st] show ?thesis
  proof (elim disjE exE conjE)
    assume "fst (snd (update_status b now st)) = st"
    then show ?thesis by (simp add: list_all2_refl status_frame_refl)
  next
    fix iid w
    assume "fst (snd (update_status b now st)) = updateFirst iid (status_patch (ToString w) now) st"
    moreover have "list_all2 status_frame st (updateFirst iid (status_patch (ToString w) now) st)"
      by (rule updateFirst_rel) (simp_all add: status_frame_def status_patch_eq)
    ultimately show ?thesis by simp
  qed
qed

lemma update_status_keeps_resolvedAt:
  assumes "b ''status'' \<noteq> Some (JStr ''Resolved'')"
  shows "map resolvedAt (fst (snd (update_status b now st))) = map resolvedAt st"
proof -
  from update_status_store [of b now st] show ?thesis
  proof (elim disjE exE conjE)
    assume "fst (snd (update_status b now st)) = st"
    then show ?thesis by simp
  next
    fix iid w
    assume "b ''status'' = Some w"
      and "fst (snd (update_status b now st)) = updateFirst iid (status_patch (ToString w) now) st"
    with assms show ?thesis by (simp add: updateFirst_map status_patch_eq ToString_Resolved)
  qed
qed

lemma update_status_ids: "map issueId (fst (snd (update_status b now st))) = map issueId st"
  using update_status_store [of b now st] by (auto simp: updateFirst_map status_patch_eq)

lemma assign_issue_frame: "list_all2 assign_frame st (fst (snd (assign_issue co b now st)))"
proof -
  from assign_issue_store [of co b now st] show ?thesis
  proof (elim disjE exE conjE)
    assume "fst (snd (assign_issue co b now st)) = st"
    then show ?thesis by (simp add: list_all2_refl assign_frame_refl)
  next
    fix iid i uid
    assume f: "findOne iid st = Some i"
      and e: "fst (snd (assign_issue co b now st)) =
        updateFirst iid (\<lambda>_. i\<lparr>assignedTo := Some uid, updatedAt := now\<rparr>) st"
    have "list_all2 assign_frame st
            (updateFirst iid (\<lambda>_. i\<lparr>assignedTo := Some uid, updatedAt := now\<rparr>) st)"
      by (rule updateFirst_const_rel [OF _ f]) (simp_all add: assign_frame_def)
    with e show ?thesis by simp
  qed
qed

lemma assign_issue_ids: "map issueId (fst (snd (assign_issue co b now st))) = map issueId st"
proof -
  from assign_issue_store [of co b now st] show ?thesis
  proof (elim disjE exE conjE)
    assume "fst (snd (assign_issue co b now st)) = st"
    then show ?thesis by simp
  next
    fix iid i uid
    assume "findOne iid st = Some i"
      and "fst (snd (assign_issue co b now st)) =
        updateFirst iid (\<lambda>_. i\<lparr>assignedTo := Some uid, updatedAt := now\<rparr>) st"
    then show ?thesis using findOne_Some [of iid st i] by (simp add: updateFirst_map)
  qed
qed

text \<open>
  C9, as amended. Neither \<open>/update_status\<close> nor \<open>/assign_issue\<close> changes the \<open>issueId\<close> of
  any document, or the number or order of the documents. Apart from \<open>updatedAt\<close>, which
  the store refreshes, \<open>/update_status\<close> changes only \<open>status\<close> and \<open>resolvedAt\<close>, and
  \<open>resolvedAt\<close> only when the new status is Resolved; \<open>/assign_issue\<close> changes only
  \<open>assignedTo\<close>.
\<close>

theorem issueId_immutable:
  "map issueId (fst (snd (update_status b now st))) = map issueId st \<and>
   map issueId (fst (snd (assign_issue co b now st))) = map issueId st \<and>
   list_all2 status_frame st (fst (snd (update_status b now st))) \<and>
   (b ''status'' \<noteq> Some (JStr ''Resolved'') \<longrightarrow>
      map resolvedAt (fst (snd (update_status b now st))) = map resolvedAt st) \<and>
   list_all2 assign_frame st (fst (snd (assign_issue co b now st)))"
  by (simp add: update_status_ids assign_issue_ids update_status_frame
      update_status_keeps_resolvedAt assign_issue_frame)

text \<open>
  Acknowledging the pothole issue, and assigning it, at time 9.
\<close>

theorem issueId_immutable_witness:
  "fst (snd (update_status [''issueId'' \<mapsto> JStr ''100000'', ''status'' \<mapsto> JStr ''Acknowledged''] 9
               [pothole_issue])) =
     [pothole_issue\<lparr>status := ''Acknowledged'', updatedAt := 9\<rparr>] \<and>
   map issueId [pothole_issue\<lparr>status := ''Acknowledged'', updatedAt := 9\<rparr>] = [''100000''] \<and>
   map resolvedAt [pothole_issue\<lparr>status := ''Acknowledged'', updatedAt := 9\<rparr>] = [None] \<and>
   fst (snd (assign_issue example_castObjectId
               [''issueId'' \<mapsto> JStr ''100000'', ''userId'' \<mapsto> JStr ''64b7f1a2c3d4e5f601234567''] 9
               [pothole_issue])) =
     [pothole_issue\<lparr>assignedTo := Some ''64b7f1a2c3d4e5f601234567'', updatedAt := 9\<rparr>]"
  using issueId_immutable
      [of "[''issueId'' \<mapsto> JStr ''100000'', ''status'' \<mapsto> JStr ''Acknowledged'']" 9
      "[pothole_issue]" example_castObjectId]
    issueId_immutable
      [of "[''issueId'' \<mapsto> JStr ''100000'', ''userId'' \<mapsto> JStr ''64b7f1a2c3d4e5f601234567'']" 9
      "[pothole_issue]" example_castObjectId]
  by (simp add: update_status_single pothole_issue_fields
      assign_issue_unfold [of _ "JStr ''100000''" "JStr ''64b7f1a2c3d4e5f601234567''"]
      findOne_def validate_pothole_issue example_castObjectId_def)

text \<open>
  C9, as stated, fails in one detail: a status update is not a write of \<open>status\<close> and
  \<open>resolvedAt\<close> alone, since \<open>updatedAt\<close> moves from 0 to 9 with it.
\<close>

theorem status_write_touches_updatedAt_counterexample:
  "fst (snd (update_status [''issueId'' \<mapsto> JStr ''100000'', ''status'' \<mapsto> JStr ''Acknowledged''] 9
               [pothole_issue])) =
     [pothole_issue\<lparr>status := ''Acknowledged'', updatedAt := 9\<rparr>] \<and>
   \<not> list_all2 spec_status_frame [pothole_issue]
     (fst (snd (update_status [''issueId'' \<mapsto> JStr ''100000'', ''status'' \<mapsto> JStr ''Acknowledged''] 9
               [pothole_issue])))"
proof -
  have u: "fst (snd (update_status [''issueId'' \<mapsto> JStr ''100000'', ''status'' \<mapsto> JStr ''Acknowledged''] 9
               [pothole_issue])) =
     [pothole_issue\<lparr>status := ''Acknowledged'', updatedAt := 9\<rparr>]"
    by (simp add: update_status_single pothole_issue_fields)
  have "\<not> spec_status_frame pothole_issue (pothole_issue\<lparr>status := ''Acknowledged'', updatedAt := 9\<rparr>)"
  proof
    assume "spec_status_frame pothole_issue (pothole_issue\<lparr>status := ''Acknowledged'', updatedAt := 9\<rparr>)"
    then have "updatedAt (pothole_issue\<lparr>status := ''Acknowledged'', updatedAt := 9\<rparr>) =
               updatedAt (pothole_issue\<lparr>status := ''Acknowledged'', resolvedAt := None\<rparr>)"
      by (simp add: spec_status_frame_def pothole_issue_fields)
    then show False by (simp add: pothole_issue_fields)
  qed
  with u show ?thesis by simp
qed

end
